theory Spec2Isabelle
  imports Main
begin

section \<open>Values\<close>

text \<open>
  The selector library of \<^verbatim>\<open>src/index.js\<close> inspects the values it is handed in few ways:
  \<^verbatim>\<open>typeof\<close>, \<^verbatim>\<open>Array.isArray\<close>, \<^verbatim>\<open>===\<close>, a call, and in the structured builder
  \<^verbatim>\<open>Object.keys\<close> and a property read. A value is therefore modelled by its JavaScript
  type, by the identity (a reference) of everything that is compared by reference, and by
  the contents the library reads: the elements of an array and the own enumerable
  string-keyed properties of an object, in the order they were created, under distinct
  keys. Values are snapshots: an object that was mutated in place between two calls is
  two values with one reference.

  Numbers other than \<^verbatim>\<open>NaN\<close> are represented by their value (only \<^verbatim>\<open>===\<close> is ever applied
  to them); \<^verbatim>\<open>NaN\<close> is kept apart, being the one value not equal to itself.
\<close>

type_synonym ref = nat

datatype jsval =
    JUndefined
  | JNull
  | JBoolean bool
  | JNumber int
  | JNaN
  | JString string
  | JSymbol ref
  | JBigInt int
  | JObject ref "(string \<times> jsval) list"
  | JArray ref "jsval list"
  | JFunction ref

text \<open>What a call can raise: an \<^verbatim>\<open>Error\<close> with its message, the engine's \<^verbatim>\<open>TypeError\<close>,
  or whatever a user function throws. A computation returns \<open>Inl\<close> of the error or
  \<open>Inr\<close> of its value.\<close>

datatype exn = Error string | TypeError | Thrown jsval

type_synonym 'a result = "exn + 'a"

fun typeof :: "jsval \<Rightarrow> string" where
  "typeof JUndefined = ''undefined''"
| "typeof JNull = ''object''"
| "typeof (JBoolean b) = ''boolean''"
| "typeof (JNumber n) = ''number''"
| "typeof JNaN = ''number''"
| "typeof (JString s) = ''string''"
| "typeof (JSymbol r) = ''symbol''"
| "typeof (JBigInt n) = ''bigint''"
| "typeof (JObject r ps) = ''object''"
| "typeof (JArray r xs) = ''object''"
| "typeof (JFunction r) = ''function''"

section \<open>The default comparator\<close>

text \<open>\<^verbatim>\<open>function defaultEqualityCheck(a, b) { return a === b }\<close>: strict equality. Primitives
  are compared by value, \<^verbatim>\<open>NaN\<close> differs from everything, objects, arrays, functions and
  symbols are compared by reference.\<close>

fun defaultEqualityCheck :: "jsval \<Rightarrow> jsval \<Rightarrow> bool" where
  "defaultEqualityCheck JUndefined b = (b = JUndefined)"
| "defaultEqualityCheck JNull b = (b = JNull)"
| "defaultEqualityCheck (JBoolean x) b = (b = JBoolean x)"
| "defaultEqualityCheck (JNumber x) b = (b = JNumber x)"
| "defaultEqualityCheck JNaN b = False"
| "defaultEqualityCheck (JString x) b = (b = JString x)"
| "defaultEqualityCheck (JSymbol r) b = (b = JSymbol r)"
| "defaultEqualityCheck (JBigInt x) b = (b = JBigInt x)"
| "defaultEqualityCheck (JObject r ps) b = (case b of JObject r' ps' \<Rightarrow> r' = r | _ \<Rightarrow> False)"
| "defaultEqualityCheck (JArray r xs) b = (case b of JArray r' xs' \<Rightarrow> r' = r | _ \<Rightarrow> False)"
| "defaultEqualityCheck (JFunction r) b = (b = JFunction r)"

section \<open>Shallow comparison of two argument lists\<close>

text \<open>
  \<^verbatim>\<open>areArgumentsShallowlyEqual(equalityCheck, prev, next)\<close>. An argument list is a list, and
  \<^verbatim>\<open>null\<close> (the unset sentinel) is \<open>None\<close>. The \<^verbatim>\<open>for\<close> loop is \<open>shallow_loop\<close>: it runs
  over the index \<open>i\<close> and leaves at the first pair the comparator rejects. The comparator
  is a predicate.
\<close>

function shallow_loop ::
  "('a \<Rightarrow> 'a \<Rightarrow> bool) \<Rightarrow> 'a list \<Rightarrow> 'a list \<Rightarrow> nat \<Rightarrow> nat \<Rightarrow> bool" where
  "shallow_loop equalityCheck prev next i len =
     (if i < len
      then (if \<not> equalityCheck (prev ! i) (next ! i) then False
            else shallow_loop equalityCheck prev next (Suc i) len)
      else True)"
  by pat_completeness auto
termination
  by (relation "measure (\<lambda>(equalityCheck, prev, next, i, len). len - i)") auto

declare shallow_loop.simps [simp del]

definition areArgumentsShallowlyEqual ::
  "('a \<Rightarrow> 'a \<Rightarrow> bool) \<Rightarrow> 'a list option \<Rightarrow> 'a list option \<Rightarrow> bool" where
  "areArgumentsShallowlyEqual equalityCheck prev next =
     (case prev of
        None \<Rightarrow> False
      | Some p \<Rightarrow>
          (case next of
             None \<Rightarrow> False
           | Some n \<Rightarrow>
               if length p \<noteq> length n then False
               else shallow_loop equalityCheck p n 0 (length p)))"

section \<open>The single-slot memoizer\<close>

text \<open>
  \<^verbatim>\<open>defaultMemoize(func, equalityCheck)\<close> closes over two variables, \<^verbatim>\<open>lastArgs\<close> and
  \<^verbatim>\<open>lastResult\<close>, both \<^verbatim>\<open>null\<close> at first. They are the record \<open>memo\<close>.

  The wrapped function may have effects of its own (the selector composer wraps a closure
  that counts), so a function is a state transformer: from its state \<open>'w\<close> and its
  arguments to a result and a new state. The memoized function has the same shape, over
  the state \<open>memo \<times> 'w\<close>. When \<^verbatim>\<open>func\<close> raises, the assignment to \<^verbatim>\<open>lastResult\<close> and the
  one to \<^verbatim>\<open>lastArgs\<close> after it are not reached, but whatever \<^verbatim>\<open>func\<close> did to its own state
  stays done.
\<close>

record memo =
  lastArgs :: "jsval list option"
  lastResult :: jsval

definition memo_init :: memo where
  "memo_init = \<lparr>lastArgs = None, lastResult = JNull\<rparr>"

type_synonym 'w jsfun = "'w \<Rightarrow> jsval list \<Rightarrow> jsval result \<times> 'w"

definition defaultMemoize ::
  "'w jsfun \<Rightarrow> (jsval \<Rightarrow> jsval \<Rightarrow> bool) \<Rightarrow> (memo \<times> 'w) jsfun" where
  "defaultMemoize func equalityCheck s arguments =
     (case s of (m, w) \<Rightarrow>
        if \<not> areArgumentsShallowlyEqual equalityCheck (lastArgs m) (Some arguments)
        then (case func w arguments of
                (Inl e, w') \<Rightarrow> (Inl e, (m, w'))
              | (Inr v, w') \<Rightarrow> (Inr v, (\<lparr>lastArgs = Some arguments, lastResult = v\<rparr>, w')))
        else (Inr (lastResult m), (m\<lparr>lastArgs := Some arguments\<rparr>, w)))"

text \<open>The closure \<^verbatim>\<open>function () { recomputations++; return resultFunc.apply(null, arguments) }\<close>
  that the selector composer hands to its memoizer: it counts first and calls second. The
  same wrapper counts the invocations of any function.\<close>

definition counted :: "'u jsfun \<Rightarrow> (nat \<times> 'u) jsfun" where
  "counted resultFunc s arguments =
     (case s of (recomputations, u) \<Rightarrow>
        (case resultFunc u arguments of (r, u') \<Rightarrow> (r, (Suc recomputations, u'))))"

text \<open>A caller that invokes a function several times in a row, going on after a call
  that raised (as a caller with \<^verbatim>\<open>try\<close>/\<^verbatim>\<open>catch\<close> does): the results of the calls and the
  state left behind.\<close>

fun calls :: "'w jsfun \<Rightarrow> 'w \<Rightarrow> jsval list list \<Rightarrow> jsval result list \<times> 'w" where
  "calls f w [] = ([], w)"
| "calls f w (arguments # rest) =
     (case f w arguments of (r, w') \<Rightarrow>
        (case calls f w' rest of (rs, w'') \<Rightarrow> (r # rs, w'')))"

section \<open>Decimal numerals\<close>

text \<open>The decimal numeral of a number, which is how an index is written as a property
  key, and the number a string is the canonical numeral of, if it is an array index (a
  number below \<open>2^32 - 1\<close>).\<close>

definition digit_char :: "nat \<Rightarrow> char" where
  "digit_char d = ''0123456789'' ! d"

function decimal :: "nat \<Rightarrow> string" where
  "decimal n = (if n < 10 then [digit_char n] else decimal (n div 10) @ [digit_char (n mod 10)])"
  by pat_completeness auto
termination
  by (relation "measure (\<lambda>n. n)") auto

declare decimal.simps [simp del]

fun position :: "'a \<Rightarrow> 'a list \<Rightarrow> nat option" where
  "position x [] = None"
| "position x (y # ys) = (if x = y then Some 0 else map_option Suc (position x ys))"

definition digit_value :: "char \<Rightarrow> nat option" where
  "digit_value c = position c ''0123456789''"

fun parse_digits :: "string \<Rightarrow> nat \<Rightarrow> nat option" where
  "parse_digits [] acc = Some acc"
| "parse_digits (c # cs) acc =
     (case digit_value c of None \<Rightarrow> None | Some d \<Rightarrow> parse_digits cs (10 * acc + d))"

definition array_index :: "string \<Rightarrow> nat option" where
  "array_index s =
     (case parse_digits s 0 of
        None \<Rightarrow> None
      | Some n \<Rightarrow> if s \<noteq> [] \<and> decimal n = s \<and> n < 4294967295 then Some n else None)"

section \<open>User functions\<close>

text \<open>
  The functions a caller supplies are values \<open>JFunction r\<close>; what they compute is looked up
  in a table of function bodies, a parameter of the model. A user function is a function of
  its arguments that returns a value or raises; it has no properties of its own.

  \<open>call_fn\<close> is the call \<^verbatim>\<open>f(arguments)\<close>: the body of a function, and a \<^verbatim>\<open>TypeError\<close> for
  every value that is not one.
\<close>

type_synonym fenv = "ref \<Rightarrow> jsval list \<Rightarrow> jsval result"


text \<open>
  \<^verbatim>\<open>resultFunc.apply(null, arguments)\<close> is a property lookup followed by a call. On a
  function the property is \<^verbatim>\<open>Function.prototype.apply\<close>, which calls the function with the
  elements of \<^verbatim>\<open>arguments\<close>. On an object it is the object's own property \<^verbatim>\<open>apply\<close>, if it
  has one; when that is a function it is called with the two arguments \<^verbatim>\<open>null\<close> and the
  \<^verbatim>\<open>arguments\<close> object itself, and when it is anything else, or missing, the call is a
  \<^verbatim>\<open>TypeError\<close>. On every other value no \<^verbatim>\<open>apply\<close> is found (on \<^verbatim>\<open>undefined\<close> and \<^verbatim>\<open>null\<close> the
  lookup itself fails): a \<^verbatim>\<open>TypeError\<close> again.

  The \<^verbatim>\<open>arguments\<close> object is an object, not an array, whose enumerable properties are the
  indices. It is new at every call; the state of \<open>apply_fn\<close> is the next unused
  reference, taken when the object is handed to a user function.
\<close>

definition own_apply :: "jsval \<Rightarrow> ref option" where
  "own_apply f =
     (case f of
        JObject r ps \<Rightarrow>
          (case map_of ps ''apply'' of
             None \<Rightarrow> None
           | Some m \<Rightarrow> (case m of JFunction g \<Rightarrow> Some g | _ \<Rightarrow> None))
      | _ \<Rightarrow> None)"

definition arguments_object :: "ref \<Rightarrow> jsval list \<Rightarrow> jsval" where
  "arguments_object r arguments =
     JObject r (zip (map decimal [0..<length arguments]) arguments)"

definition apply_fn :: "fenv \<Rightarrow> jsval \<Rightarrow> nat jsfun" where
  "apply_fn body f u arguments =
     (case f of
        JFunction r \<Rightarrow> (body r arguments, u)
      | _ \<Rightarrow>
          (case own_apply f of
             None \<Rightarrow> (Inl TypeError, u)
           | Some g \<Rightarrow> (body g [JNull, arguments_object u arguments], Suc u)))"

section \<open>The dependency extractor\<close>

text \<open>\<^verbatim>\<open>Array.prototype.join\<close> on a list of strings.\<close>

fun join :: "string \<Rightarrow> string list \<Rightarrow> string" where
  "join sep [] = []"
| "join sep [x] = x"
| "join sep (x # y # ys) = x @ sep @ join sep (y # ys)"

text \<open>\<^verbatim>\<open>Array.isArray(funcs[0]) ? funcs[0] : funcs\<close>; \<^verbatim>\<open>funcs[0]\<close> of an empty list is
  \<^verbatim>\<open>undefined\<close>, which is not an array. Arrays are dense.\<close>

definition dependency_list :: "jsval list \<Rightarrow> jsval list" where
  "dependency_list funcs =
     (case funcs of
        [] \<Rightarrow> funcs
      | f0 # rest \<Rightarrow> (case f0 of JArray r xs \<Rightarrow> xs | _ \<Rightarrow> funcs))"

definition getDependencies :: "jsval list \<Rightarrow> (jsval list) result" where
  "getDependencies funcs =
     (let dependencies = dependency_list funcs in
      if \<not> list_all (\<lambda>dep. typeof dep = ''function'') dependencies
      then (let dependencyTypes = join '', '' (map typeof dependencies) in
            Inl (Error (''Selector creators expect all input-selectors to be functions, '' @
                        ''instead received the following types: ['' @ dependencyTypes @ '']'')))
      else Inr dependencies)"

text \<open>The dependencies that \<open>getDependencies\<close> returns are functions, all of them. A selector
  keeps them by their references.\<close>

fun function_refs :: "jsval list \<Rightarrow> ref list" where
  "function_refs [] = []"
| "function_refs (JFunction r # vs) = r # function_refs vs"
| "function_refs (v # vs) = function_refs vs"

section \<open>Memoizers\<close>

text \<open>
  \<^verbatim>\<open>createSelectorCreator(memoize, ...memoizeOptions)\<close> takes any memoizer. What the composer
  does with it is one call, \<^verbatim>\<open>memoize(func, ...memoizeOptions)\<close>, and then calls of what that
  call returned. So a memoizer is a function from \<open>func\<close> to an error, when the call raises,
  or to a memoized function: the state it starts in, of any type \<open>'s\<close>, and what a call of
  it does to that state and to the state of \<open>func\<close>. The memoizer does not call \<open>func\<close>
  before it returns. What it returns is used in \<^verbatim>\<open>memoizedResultFunc.apply(null, params)\<close>
  only, so a memoizer that returns a value with no \<^verbatim>\<open>apply\<close> is one whose memoized function
  raises a \<^verbatim>\<open>TypeError\<close> at every call.

  \<open>memoize_with equalityCheck\<close> is \<^verbatim>\<open>defaultMemoize\<close> with that comparator as its option,
  \<open>memoize_identity\<close> is the memoizer \<^verbatim>\<open>func => func\<close>, which remembers nothing, and
  \<open>memoize_raising e\<close> is one that raises.
\<close>

record ('s, 'w) memoized =
  memoized_init :: 's
  memoized_call :: "('s \<times> 'w) jsfun"

type_synonym ('s, 'w) memoize = "'w jsfun \<Rightarrow> (('s, 'w) memoized) result"

definition defaultMemoized :: "'w jsfun \<Rightarrow> (jsval \<Rightarrow> jsval \<Rightarrow> bool) \<Rightarrow> (memo, 'w) memoized" where
  "defaultMemoized func equalityCheck =
     \<lparr>memoized_init = memo_init, memoized_call = defaultMemoize func equalityCheck\<rparr>"

definition memoize_with :: "(jsval \<Rightarrow> jsval \<Rightarrow> bool) \<Rightarrow> (memo, 'w) memoize" where
  "memoize_with equalityCheck func = Inr (defaultMemoized func equalityCheck)"

definition unmemoized :: "'w jsfun \<Rightarrow> (unit, 'w) memoized" where
  "unmemoized func =
     \<lparr>memoized_init = (),
      memoized_call = (\<lambda>s arguments.
        case s of (x, w) \<Rightarrow> (case func w arguments of (r, w') \<Rightarrow> (r, (x, w'))))\<rparr>"

definition memoize_identity :: "(unit, 'w) memoize" where
  "memoize_identity func = Inr (unmemoized func)"


section \<open>The selector composer\<close>

text \<open>
  What the creator returns is a function with three closed-over variables: the memo of the
  outer \<^verbatim>\<open>defaultMemoize\<close>, the state of \<^verbatim>\<open>memoizedResultFunc\<close> and the counter
  \<^verbatim>\<open>recomputations\<close>. The record \<open>selector\<close> holds what is fixed at creation, the tuple
  \<open>selector_state\<close> what changes from call to call; \<open>'u\<close> is the state of the result
  function.

  The result function, which the source takes off the end of \<^verbatim>\<open>funcs\<close>, is a parameter of
  its own in \<open>composeSelector\<close>, because the structured builder passes a closure of the
  library there; \<open>createSelectorCreator\<close> does the \<^verbatim>\<open>funcs.pop()\<close> for a list of values.
  \<^verbatim>\<open>createSelector\<close> is \<^verbatim>\<open>createSelectorCreator(defaultMemoize)\<close>, with no option, so that the
  comparator is the default one.
\<close>

record ('s, 'u) selector =
  dependencies :: "ref list"
  resultFunc :: "'u jsfun"
  memoizedResultFunc :: "('s, nat \<times> 'u) memoized"

type_synonym ('s, 'u) selector_state = "memo \<times> 's \<times> nat \<times> 'u"

definition selector_init :: "('s, 'u) selector \<Rightarrow> 'u \<Rightarrow> ('s, 'u) selector_state" where
  "selector_init sel u = (memo_init, memoized_init (memoizedResultFunc sel), 0, u)"

definition recomputations :: "('s, 'u) selector_state \<Rightarrow> nat" where
  "recomputations s = (case s of (mo, mi, n, u) \<Rightarrow> n)"

definition resetRecomputations :: "('s, 'u) selector_state \<Rightarrow> ('s, 'u) selector_state" where
  "resetRecomputations s = (case s of (mo, mi, n, u) \<Rightarrow> (mo, mi, 0, u))"

text \<open>The loop \<^verbatim>\<open>params.push(dependencies[i].apply(null, arguments))\<close>, from the
  dependencies still to run and the parameters pushed so far. A dependency is a function,
  and \<^verbatim>\<open>apply\<close> calls it.\<close>

fun params_loop :: "fenv \<Rightarrow> ref list \<Rightarrow> jsval list \<Rightarrow> jsval list \<Rightarrow> (jsval list) result" where
  "params_loop body [] arguments params = Inr params"
| "params_loop body (dep # deps) arguments params =
     (case body dep arguments of
        Inl e \<Rightarrow> Inl e
      | Inr v \<Rightarrow> params_loop body deps arguments (params @ [v]))"

definition selector_func :: "fenv \<Rightarrow> ('s, 'u) selector \<Rightarrow> ('s \<times> nat \<times> 'u) jsfun" where
  "selector_func body sel w arguments =
     (case params_loop body (dependencies sel) arguments [] of
        Inl e \<Rightarrow> (Inl e, w)
      | Inr params \<Rightarrow> memoized_call (memoizedResultFunc sel) w params)"

definition selector_call :: "fenv \<Rightarrow> ('s, 'u) selector \<Rightarrow> ('s, 'u) selector_state jsfun" where
  "selector_call body sel = defaultMemoize (selector_func body sel) defaultEqualityCheck"

definition composeSelector ::
  "('s, nat \<times> 'u) memoize \<Rightarrow> jsval list \<Rightarrow> 'u jsfun \<Rightarrow> (('s, 'u) selector) result" where
  "composeSelector memoize funcs rf =
     (case getDependencies funcs of
        Inl e \<Rightarrow> Inl e
      | Inr deps \<Rightarrow>
          (case memoize (counted rf) of
             Inl e \<Rightarrow> Inl e
           | Inr m \<Rightarrow>
               Inr \<lparr>dependencies = function_refs deps, resultFunc = rf,
                    memoizedResultFunc = m\<rparr>))"

text \<open>\<^verbatim>\<open>funcs.pop()\<close>: the last element and the list without it, \<^verbatim>\<open>undefined\<close> from an empty
  list.\<close>

definition pop :: "jsval list \<Rightarrow> jsval \<times> jsval list" where
  "pop funcs = (if funcs = [] then (JUndefined, []) else (last funcs, butlast funcs))"

definition createSelectorCreator ::
  "('s, nat \<times> nat) memoize \<Rightarrow> fenv \<Rightarrow> jsval list \<Rightarrow> (('s, nat) selector) result" where
  "createSelectorCreator memoize body funcs =
     (case pop funcs of (rf, funcs') \<Rightarrow> composeSelector memoize funcs' (apply_fn body rf))"

definition createSelector :: "fenv \<Rightarrow> jsval list \<Rightarrow> ((memo, nat) selector) result" where
  "createSelector = createSelectorCreator (memoize_with defaultEqualityCheck)"

section \<open>The structured selector builder\<close>

text \<open>
  \<^verbatim>\<open>Object.keys\<close> lists the own enumerable string keys of an object: first the keys that are
  array indices, in ascending order, then the other keys in the order they were created.
  For an array these are its indices; for \<^verbatim>\<open>null\<close> and \<^verbatim>\<open>undefined\<close> it raises a
  \<^verbatim>\<open>TypeError\<close>.
\<close>

definition own_keys :: "string list \<Rightarrow> string list" where
  "own_keys ks =
     sort_key (\<lambda>k. the (array_index k)) (filter (\<lambda>k. array_index k \<noteq> None) ks)
     @ filter (\<lambda>k. array_index k = None) ks"

fun Object_keys :: "jsval \<Rightarrow> (string list) result" where
  "Object_keys JUndefined = Inl TypeError"
| "Object_keys JNull = Inl TypeError"
| "Object_keys (JObject r ps) = Inr (own_keys (map fst ps))"
| "Object_keys (JArray r xs) = Inr (map decimal [0..<length xs])"
| "Object_keys (JString s) = Inr (map decimal [0..<length s])"
| "Object_keys _ = Inr []"

text \<open>\<^verbatim>\<open>selectors[key]\<close>, for a key that \<^verbatim>\<open>Object.keys\<close> listed.\<close>

fun get_property :: "jsval \<Rightarrow> string \<Rightarrow> jsval" where
  "get_property (JObject r ps) key =
     (case map_of ps key of None \<Rightarrow> JUndefined | Some v \<Rightarrow> v)"
| "get_property (JArray r xs) key =
     (case array_index key of
        None \<Rightarrow> JUndefined
      | Some i \<Rightarrow> if i < length xs then xs ! i else JUndefined)"
| "get_property (JString s) key =
     (case array_index key of
        None \<Rightarrow> JUndefined
      | Some i \<Rightarrow> if i < length s then JString [s ! i] else JUndefined)"
| "get_property _ key = JUndefined"

text \<open>
  \<^verbatim>\<open>composition[key] = value\<close> on an object that started as \<^verbatim>\<open>{}\<close>. The write replaces the
  value of a key the object has. A key it does not have is looked up in
  \<^verbatim>\<open>Object.prototype\<close>, where one key, \<^verbatim>\<open>__proto__\<close>, has a setter: the write of that key
  runs the setter and creates no property. Every other key is created, after the keys that
  are there. The setter does nothing more when the value written is a primitive; an object
  or \<^verbatim>\<open>null\<close> written there becomes the prototype of the composition, which the own keys
  and values of a \<open>JObject\<close> do not show, and the writes that follow are those of an
  object whose prototype is \<^verbatim>\<open>Object.prototype\<close> or has writable data properties only.
\<close>

fun set_property :: "(string \<times> jsval) list \<Rightarrow> string \<Rightarrow> jsval \<Rightarrow> (string \<times> jsval) list" where
  "set_property [] key v = (if key = ''__proto__'' then [] else [(key, v)])"
| "set_property (p # ps) key v =
     (if fst p = key then (key, v) # ps else p # set_property ps key v)"

text \<open>\<^verbatim>\<open>objectKeys[index]\<close>, used as a property key: past the end it is \<^verbatim>\<open>undefined\<close>, whose
  key is its name.\<close>

definition key_at :: "string list \<Rightarrow> nat \<Rightarrow> string" where
  "key_at objectKeys index =
     (if index < length objectKeys then objectKeys ! index else ''undefined'')"

text \<open>The combining function \<^verbatim>\<open>(...values) => values.reduce(..., {})\<close>. The object \<^verbatim>\<open>{}\<close> it
  fills is new at every call: its state is the next unused reference.\<close>

fun reduce_loop ::
  "string list \<Rightarrow> jsval list \<Rightarrow> nat \<Rightarrow> (string \<times> jsval) list \<Rightarrow> (string \<times> jsval) list" where
  "reduce_loop objectKeys [] index composition = composition"
| "reduce_loop objectKeys (v # values) index composition =
     reduce_loop objectKeys values (Suc index)
       (set_property composition (key_at objectKeys index) v)"

definition structured_resultFunc :: "string list \<Rightarrow> nat jsfun" where
  "structured_resultFunc objectKeys u values =
     (Inr (JObject u (reduce_loop objectKeys values 0 [])), Suc u)"

text \<open>\<^verbatim>\<open>createStructuredSelector(selectors, selectorCreator)\<close>. The array of the sub-selectors
  is new; nothing ever compares it, and its reference is \<open>0\<close>.\<close>

definition createStructuredSelector ::
  "jsval \<Rightarrow> (jsval list \<Rightarrow> nat jsfun \<Rightarrow> (('s, nat) selector) result) \<Rightarrow>
   (('s, nat) selector) result" where
  "createStructuredSelector selectors selectorCreator =
     (if typeof selectors \<noteq> ''object''
      then Inl (Error (''createStructuredSelector expects first argument to be an object '' @
                       ''where each property is a selector, instead received a '' @
                       typeof selectors))
      else (case Object_keys selectors of
              Inl e \<Rightarrow> Inl e
            | Inr objectKeys \<Rightarrow>
                selectorCreator [JArray 0 (map (get_property selectors) objectKeys)]
                  (structured_resultFunc objectKeys)))"

section \<open>What the specification counts and builds\<close>


text \<open>
  The specification counts the distinct parameter lists of a series of calls: the first
  one, and every one that is not equal, under the comparator, to the one before it.
  \<open>changes\<close> counts the lists that differ from their predecessor, starting from a given
  list; this too is written from the specification.
\<close>

fun changes :: "('a \<Rightarrow> 'a \<Rightarrow> bool) \<Rightarrow> 'a list \<Rightarrow> 'a list list \<Rightarrow> nat" where
  "changes eq p [] = 0"
| "changes eq p (q # qs) = (if list_all2 eq p q then 0 else 1) + changes eq q qs"

fun distinct_lists :: "('a \<Rightarrow> 'a \<Rightarrow> bool) \<Rightarrow> 'a list list \<Rightarrow> nat" where
  "distinct_lists eq [] = 0"
| "distinct_lists eq (p # ps) = Suc (changes eq p ps)"

section \<open>Repeated applications of a structured selector\<close>




section \<open>Inputs of the examples\<close>

text \<open>A function that raises whatever it is called with, one that returns the same value
  whatever it is called with, and the number of invocations that \<open>counted\<close> has recorded
  in the state of a memoized function.\<close>

definition raising :: "exn \<Rightarrow> 'u jsfun" where
  "raising e u arguments = (Inl e, u)"

definition returning :: "jsval \<Rightarrow> 'u jsfun" where
  "returning v u arguments = (Inr v, u)"

definition invocations :: "memo \<times> nat \<times> 'u \<Rightarrow> nat" where
  "invocations s = (case s of (m, k, u) \<Rightarrow> k)"

text \<open>A table of four user functions: \<open>0\<close> returns its first argument, \<open>1\<close> raises, \<open>3\<close>
  reads the property \<^verbatim>\<open>a\<close> of its first argument, and every other one returns the number
  of its arguments.\<close>

definition example_body :: fenv where
  "example_body r arguments =
     (if r = 0 then Inr (case arguments of [] \<Rightarrow> JUndefined | a # rest \<Rightarrow> a)
      else if r = 1 then Inl (Thrown (JString ''boom''))
      else if r = 3
        then Inr (get_property (case arguments of [] \<Rightarrow> JUndefined | a # rest \<Rightarrow> a) ''a'')
      else Inr (JNumber (int (length arguments))))"

text \<open>The selector of \<^verbatim>\<open>createSelector(f0, f1)\<close>, whose result function raises; the one of
  \<^verbatim>\<open>createSelector(f3, f2)\<close>; the one of \<^verbatim>\<open>createSelectorCreator(func => func)(f3, f2)\<close>; and
  the one of \<^verbatim>\<open>createSelector(f0, {apply: f2})\<close>, whose last argument is an object
  with a method \<^verbatim>\<open>apply\<close>.\<close>

definition raising_selector :: "(memo, nat) selector" where
  "raising_selector =
     \<lparr>dependencies = [0],
      resultFunc = apply_fn example_body (JFunction 1),
      memoizedResultFunc =
        defaultMemoized (counted (apply_fn example_body (JFunction 1))) defaultEqualityCheck\<rparr>"

definition counting_selector :: "(memo, nat) selector" where
  "counting_selector =
     \<lparr>dependencies = [3],
      resultFunc = apply_fn example_body (JFunction 2),
      memoizedResultFunc =
        defaultMemoized (counted (apply_fn example_body (JFunction 2))) defaultEqualityCheck\<rparr>"

definition unmemoized_selector :: "(unit, nat) selector" where
  "unmemoized_selector =
     \<lparr>dependencies = [3],
      resultFunc = apply_fn example_body (JFunction 2),
      memoizedResultFunc = unmemoized (counted (apply_fn example_body (JFunction 2)))\<rparr>"








section \<open>Properties of the shallow comparison\<close>

lemma shallow_loop_iff:
  "shallow_loop C p n i len \<longleftrightarrow> (\<forall>j. i \<le> j \<and> j < len \<longrightarrow> C (p ! j) (n ! j))"
proof (induction C p n i len rule: shallow_loop.induct)
  case (1 C p n i len)
  show ?case
  proof (cases "i < len")
    case False
    then show ?thesis by (auto simp: shallow_loop.simps [of C p n i len])
  next
    case True
    show ?thesis
    proof (cases "C (p ! i) (n ! i)")
      case False
      with True show ?thesis
        by (auto simp: shallow_loop.simps [of C p n i len])
    next
      case holds: True
      have "shallow_loop C p n i len = shallow_loop C p n (Suc i) len"
        using True holds by (simp add: shallow_loop.simps [of C p n i len])
      also have "\<dots> \<longleftrightarrow> (\<forall>j. Suc i \<le> j \<and> j < len \<longrightarrow> C (p ! j) (n ! j))"
        using "1.IH" True holds by simp
      also have "\<dots> \<longleftrightarrow> (\<forall>j. i \<le> j \<and> j < len \<longrightarrow> C (p ! j) (n ! j))"
        using holds by (metis Suc_leI le_neq_implies_less Suc_leD)
      finally show ?thesis .
    qed
  qed
qed


lemma shallow_Some_iff:
  "areArgumentsShallowlyEqual C (Some p) (Some n) \<longleftrightarrow>
     length p = length n \<and> (\<forall>i < length p. C (p ! i) (n ! i))"
  by (simp add: areArgumentsShallowlyEqual_def shallow_loop_iff)


lemma shallow_None [simp]:
  "\<not> areArgumentsShallowlyEqual C None next"
  "\<not> areArgumentsShallowlyEqual C prev None"
  by (simp_all add: areArgumentsShallowlyEqual_def split: option.splits)


lemma shallow_list_all2:
  "areArgumentsShallowlyEqual C (Some p) (Some n) \<longleftrightarrow> list_all2 C p n"
  by (auto simp: shallow_Some_iff list_all2_conv_all_nth)


text \<open>
  Claim C3. For every comparator \<open>C\<close> and argument lists \<open>prev\<close> and \<open>next\<close>, the shallow
  comparison returns true exactly when neither list is the unset sentinel, the lengths are
  equal and \<open>C (prev[i]) (next[i])\<close> holds at every index; so it returns false when either
  list is unset (also when both are) and when the lengths differ.
\<close>

theorem areArgumentsShallowlyEqual_spec:
  "(areArgumentsShallowlyEqual C prev next \<longleftrightarrow>
      (\<exists>p n. prev = Some p \<and> next = Some n \<and> length p = length n \<and>
             (\<forall>i < length p. C (p ! i) (n ! i))))
   \<and> \<not> areArgumentsShallowlyEqual C None next
   \<and> \<not> areArgumentsShallowlyEqual C prev None
   \<and> \<not> areArgumentsShallowlyEqual C None None
   \<and> (length p' \<noteq> length n' \<longrightarrow> \<not> areArgumentsShallowlyEqual C (Some p') (Some n'))"
proof -
  have "areArgumentsShallowlyEqual C prev next \<longleftrightarrow>
      (\<exists>p n. prev = Some p \<and> next = Some n \<and> length p = length n \<and>
             (\<forall>i < length p. C (p ! i) (n ! i)))"
  proof (cases prev)
    case None
    then show ?thesis by simp
  next
    case (Some p)
    then show ?thesis
      by (cases "next") (simp_all add: shallow_Some_iff)
  qed
  then show ?thesis
    by (simp add: shallow_Some_iff)
qed


text \<open>The comparison at three pairs of lists: equal, different in one position, and of
  different lengths.\<close>

theorem areArgumentsShallowlyEqual_spec_witness:
  "areArgumentsShallowlyEqual defaultEqualityCheck
     (Some [JNumber 1, JString ''a'']) (Some [JNumber 1, JString ''a''])
   \<and> \<not> areArgumentsShallowlyEqual defaultEqualityCheck
     (Some [JNumber 1, JString ''a'']) (Some [JNumber 1, JString ''b''])
   \<and> \<not> areArgumentsShallowlyEqual defaultEqualityCheck (Some [JNumber 1]) (Some [])"
proof -
  have a: "areArgumentsShallowlyEqual defaultEqualityCheck
     (Some [JNumber 1, JString ''a'']) (Some [JNumber 1, JString ''a''])"
    using areArgumentsShallowlyEqual_spec
      [of defaultEqualityCheck "Some [JNumber 1, JString ''a'']"
          "Some [JNumber 1, JString ''a'']" "[]" "[]"]
    by (simp add: All_less_Suc)
  have b: "\<not> areArgumentsShallowlyEqual defaultEqualityCheck
     (Some [JNumber 1, JString ''a'']) (Some [JNumber 1, JString ''b''])"
    using areArgumentsShallowlyEqual_spec
      [of defaultEqualityCheck "Some [JNumber 1, JString ''a'']"
          "Some [JNumber 1, JString ''b'']" "[]" "[]"]
    by (simp add: All_less_Suc)
  have c: "\<not> areArgumentsShallowlyEqual defaultEqualityCheck (Some [JNumber 1]) (Some [])"
    using areArgumentsShallowlyEqual_spec
      [of defaultEqualityCheck "Some [JNumber 1]" "Some []" "[JNumber 1]" "[]"]
    by simp
  from a b c show ?thesis by simp
qed


section \<open>Properties of the single-slot memoizer\<close>

lemma defaultMemoize_hit:
  "areArgumentsShallowlyEqual eq (lastArgs m) (Some args) \<Longrightarrow>
   defaultMemoize func eq (m, w) args = (Inr (lastResult m), (m\<lparr>lastArgs := Some args\<rparr>, w))"
  by (simp add: defaultMemoize_def)


lemma defaultMemoize_miss_value:
  "\<not> areArgumentsShallowlyEqual eq (lastArgs m) (Some args) \<Longrightarrow> func w args = (Inr v, w') \<Longrightarrow>
   defaultMemoize func eq (m, w) args = (Inr v, (\<lparr>lastArgs = Some args, lastResult = v\<rparr>, w'))"
  by (simp add: defaultMemoize_def)


lemma defaultMemoize_miss_raise:
  "\<not> areArgumentsShallowlyEqual eq (lastArgs m) (Some args) \<Longrightarrow> func w args = (Inl e, w') \<Longrightarrow>
   defaultMemoize func eq (m, w) args = (Inl e, (m, w'))"
  by (simp add: defaultMemoize_def)


lemma defaultMemoize_returns:
  "fst (defaultMemoize func eq (m, w) args) = Inr x \<Longrightarrow>
   lastArgs (fst (snd (defaultMemoize func eq (m, w) args))) = Some args"
  by (auto simp: defaultMemoize_def split: if_splits prod.splits sum.splits)


lemma counted_eq: "f u args = (r, u') \<Longrightarrow> counted f (k, u) args = (r, (Suc k, u'))"
  by (simp add: counted_def)


lemma calls_two:
  "g s a = (r1, s1) \<Longrightarrow> g s1 b = (r2, s2) \<Longrightarrow> calls g s [a, b] = ([r1, r2], s2)"
  by simp


lemma calls_Cons:
  "g s a = (r, s') \<Longrightarrow> calls g s (a # rest) = (r # fst (calls g s' rest), snd (calls g s' rest))"
  by (simp split: prod.splits)


text \<open>
  Claim C4, as the code has it. For every call of a memoized function: on a cache hit the
  result is \<open>lastResult\<close>, which stays as it is, and the wrapped function is not invoked
  (its state, and the count of a counted function, are unchanged); on a miss on which the
  wrapped function returns a value, \<open>lastResult\<close> becomes that value; and whenever the call
  returns, \<open>lastArgs\<close> is the current argument list afterwards.
\<close>

theorem defaultMemoize_frame:
  "(areArgumentsShallowlyEqual eq (lastArgs m) (Some args) \<longrightarrow>
      defaultMemoize func eq (m, w) args =
        (Inr (lastResult m), (m\<lparr>lastArgs := Some args\<rparr>, w))
      \<and> defaultMemoize (counted f) eq (m, (k, u)) args =
        (Inr (lastResult m), (m\<lparr>lastArgs := Some args\<rparr>, (k, u))))
   \<and> (\<not> areArgumentsShallowlyEqual eq (lastArgs m) (Some args) \<and> func w args = (Inr v, w') \<longrightarrow>
      defaultMemoize func eq (m, w) args =
        (Inr v, (\<lparr>lastArgs = Some args, lastResult = v\<rparr>, w')))
   \<and> (\<forall>x. fst (defaultMemoize func eq (m, w) args) = Inr x \<longrightarrow>
      lastArgs (fst (snd (defaultMemoize func eq (m, w) args))) = Some args)"
proof (intro conjI impI allI)
  assume hit: "areArgumentsShallowlyEqual eq (lastArgs m) (Some args)"
  show "defaultMemoize func eq (m, w) args =
        (Inr (lastResult m), (m\<lparr>lastArgs := Some args\<rparr>, w))"
    using hit by (rule defaultMemoize_hit)
  show "defaultMemoize (counted f) eq (m, (k, u)) args =
        (Inr (lastResult m), (m\<lparr>lastArgs := Some args\<rparr>, (k, u)))"
    using hit by (rule defaultMemoize_hit)
next
  assume "\<not> areArgumentsShallowlyEqual eq (lastArgs m) (Some args) \<and> func w args = (Inr v, w')"
  then show "defaultMemoize func eq (m, w) args =
        (Inr v, (\<lparr>lastArgs = Some args, lastResult = v\<rparr>, w'))"
    by (simp add: defaultMemoize_miss_value)
next
  fix x
  assume "fst (defaultMemoize func eq (m, w) args) = Inr x"
  then show "lastArgs (fst (snd (defaultMemoize func eq (m, w) args))) = Some args"
    by (rule defaultMemoize_returns)
qed


text \<open>A hit and a miss on a memo that holds the arguments \<open>[1]\<close> and the result \<open>10\<close>.\<close>

theorem defaultMemoize_frame_witness:
  "defaultMemoize (returning (JNumber 7)) defaultEqualityCheck
     (\<lparr>lastArgs = Some [JNumber 1], lastResult = JNumber 10\<rparr>, ()) [JNumber 1] =
     (Inr (JNumber 10), (\<lparr>lastArgs = Some [JNumber 1], lastResult = JNumber 10\<rparr>, ()))
   \<and> defaultMemoize (counted (returning (JNumber 7))) defaultEqualityCheck
     (\<lparr>lastArgs = Some [JNumber 1], lastResult = JNumber 10\<rparr>, (3, ())) [JNumber 1] =
     (Inr (JNumber 10), (\<lparr>lastArgs = Some [JNumber 1], lastResult = JNumber 10\<rparr>, (3, ())))
   \<and> defaultMemoize (returning (JNumber 7)) defaultEqualityCheck
     (\<lparr>lastArgs = Some [JNumber 1], lastResult = JNumber 10\<rparr>, ()) [JNumber 2] =
     (Inr (JNumber 7), (\<lparr>lastArgs = Some [JNumber 2], lastResult = JNumber 7\<rparr>, ()))"
proof -
  have hit: "areArgumentsShallowlyEqual defaultEqualityCheck
      (lastArgs \<lparr>lastArgs = Some [JNumber 1], lastResult = JNumber 10\<rparr>) (Some [JNumber 1])"
    by (simp add: shallow_list_all2)
  have miss: "\<not> areArgumentsShallowlyEqual defaultEqualityCheck
      (lastArgs \<lparr>lastArgs = Some [JNumber 1], lastResult = JNumber 10\<rparr>) (Some [JNumber 2])"
    by (simp add: shallow_list_all2)
  have val: "returning (JNumber 7) () [JNumber 2] = (Inr (JNumber 7), ())"
    by (simp add: returning_def)
  have on_hit: "defaultMemoize (returning (JNumber 7)) defaultEqualityCheck
       (\<lparr>lastArgs = Some [JNumber 1], lastResult = JNumber 10\<rparr>, ()) [JNumber 1] =
       (Inr (JNumber 10), (\<lparr>lastArgs = Some [JNumber 1], lastResult = JNumber 10\<rparr>, ()))
     \<and> defaultMemoize (counted (returning (JNumber 7))) defaultEqualityCheck
       (\<lparr>lastArgs = Some [JNumber 1], lastResult = JNumber 10\<rparr>, (3, ())) [JNumber 1] =
       (Inr (JNumber 10), (\<lparr>lastArgs = Some [JNumber 1], lastResult = JNumber 10\<rparr>, (3, ())))"
    using defaultMemoize_frame [where eq = defaultEqualityCheck
        and m = "\<lparr>lastArgs = Some [JNumber 1], lastResult = JNumber 10\<rparr>"
        and args = "[JNumber 1]" and func = "returning (JNumber 7)" and w = "()"
        and f = "returning (JNumber 7)" and k = 3 and u = "()", THEN conjunct1, rule_format, OF hit]
    by simp
  have on_miss: "defaultMemoize (returning (JNumber 7)) defaultEqualityCheck
       (\<lparr>lastArgs = Some [JNumber 1], lastResult = JNumber 10\<rparr>, ()) [JNumber 2] =
       (Inr (JNumber 7), (\<lparr>lastArgs = Some [JNumber 2], lastResult = JNumber 7\<rparr>, ()))"
    using defaultMemoize_frame [where eq = defaultEqualityCheck
        and m = "\<lparr>lastArgs = Some [JNumber 1], lastResult = JNumber 10\<rparr>"
        and args = "[JNumber 2]" and func = "returning (JNumber 7)" and w = "()"
        and v = "JNumber 7" and w' = "()",
        THEN conjunct2, THEN conjunct1, rule_format, OF conjI, OF miss val]
    by simp
  from on_hit on_miss show ?thesis by simp
qed


text \<open>
  Claim C4 as it is worded says that \<open>lastArgs\<close> is overwritten in both branches,
  unconditionally. On a miss on which the wrapped function raises it is not: the memo
  still holds the arguments \<open>[2]\<close> after a call with \<open>[1]\<close>.
\<close>

theorem defaultMemoize_frame_counterexample:
  "\<not> areArgumentsShallowlyEqual defaultEqualityCheck (Some [JNumber 2]) (Some [JNumber 1])
   \<and> defaultMemoize (raising (Thrown (JString ''boom''))) defaultEqualityCheck
       (\<lparr>lastArgs = Some [JNumber 2], lastResult = JNumber 20\<rparr>, ()) [JNumber 1] =
     (Inl (Thrown (JString ''boom'')), (\<lparr>lastArgs = Some [JNumber 2], lastResult = JNumber 20\<rparr>, ()))
   \<and> Some [JNumber 2] \<noteq> Some [JNumber 1]"
  by (simp add: shallow_list_all2 defaultMemoize_def raising_def)


text \<open>
  Claim C8. When a call takes the recompute branch and the wrapped function raises, the
  error is the result of the call and both \<open>lastArgs\<close> and \<open>lastResult\<close> are left as they
  were, for every wrapped function and in particular for a counted one; so the next call
  with the same argument list invokes the function again (the count goes up once more) and
  has the outcome of that second invocation: the error was not cached.
\<close>

theorem defaultMemoize_error_not_cached:
  assumes miss: "\<not> areArgumentsShallowlyEqual eq (lastArgs m) (Some args)"
    and raises: "func w args = (Inl e, w')"
    and raises_counted: "f u args = (Inl e, u')"
  shows "defaultMemoize func eq (m, w) args = (Inl e, (m, w'))
    \<and> defaultMemoize (counted f) eq (m, (k, u)) args = (Inl e, (m, (Suc k, u')))
    \<and> fst (defaultMemoize (counted f) eq (m, (Suc k, u')) args) = fst (f u' args)
    \<and> invocations (snd (defaultMemoize (counted f) eq (m, (Suc k, u')) args)) = Suc (Suc k)"
proof -
  have first: "defaultMemoize func eq (m, w) args = (Inl e, (m, w'))"
    using miss raises by (rule defaultMemoize_miss_raise)
  have second: "defaultMemoize (counted f) eq (m, (k, u)) args = (Inl e, (m, (Suc k, u')))"
    using miss raises_counted by (simp add: defaultMemoize_miss_raise counted_eq)
  obtain r u'' where again: "f u' args = (r, u'')"
    by (cases "f u' args")
  then have c: "counted f (Suc k, u') args = (r, (Suc (Suc k), u''))"
    by (rule counted_eq)
  have third: "fst (defaultMemoize (counted f) eq (m, (Suc k, u')) args) = fst (f u' args)"
    using miss c again by (cases r) (simp_all add: defaultMemoize_def)
  have fourth: "invocations (snd (defaultMemoize (counted f) eq (m, (Suc k, u')) args)) = Suc (Suc k)"
    using miss c by (cases r) (simp_all add: defaultMemoize_def invocations_def)
  from first second third fourth show ?thesis by simp
qed


text \<open>A function that always raises, called twice with \<open>[1]\<close> on a memo that holds \<open>[2]\<close>.\<close>

theorem defaultMemoize_error_not_cached_witness:
  "defaultMemoize (counted (raising (Thrown (JString ''boom'')))) defaultEqualityCheck
     (\<lparr>lastArgs = Some [JNumber 2], lastResult = JNumber 20\<rparr>, (0, ())) [JNumber 1] =
     (Inl (Thrown (JString ''boom'')),
      (\<lparr>lastArgs = Some [JNumber 2], lastResult = JNumber 20\<rparr>, (Suc 0, ())))
   \<and> invocations (snd (defaultMemoize (counted (raising (Thrown (JString ''boom''))))
        defaultEqualityCheck
        (\<lparr>lastArgs = Some [JNumber 2], lastResult = JNumber 20\<rparr>, (Suc 0, ())) [JNumber 1]))
     = Suc (Suc 0)"
proof -
  have miss: "\<not> areArgumentsShallowlyEqual defaultEqualityCheck
      (lastArgs \<lparr>lastArgs = Some [JNumber 2], lastResult = JNumber 20\<rparr>) (Some [JNumber 1])"
    by (simp add: shallow_list_all2)
  have r: "raising (Thrown (JString ''boom'')) () [JNumber 1] = (Inl (Thrown (JString ''boom'')), ())"
    by (simp add: raising_def)
  show ?thesis
    using defaultMemoize_error_not_cached [where func = "raising (Thrown (JString ''boom''))"
        and f = "raising (Thrown (JString ''boom''))" and k = 0, OF miss r r]
    by simp
qed


text \<open>
  Claim C2, as the code has it. For every function \<open>f\<close> that returns a value on the
  argument list \<open>A\<close>: a fresh memoized \<open>f\<close> called with \<open>A\<close> and then with a list whose
  elements are all \<^verbatim>\<open>===\<close> to those of \<open>A\<close> invokes \<open>f\<close> once, and both calls return that
  value. For every function \<open>f\<close>, raising or not: called with \<open>A\<close> and then with a list \<open>B\<close>
  that differs from \<open>A\<close> in length or at some position, it invokes \<open>f\<close> twice.
\<close>

theorem defaultMemoize_twice:
  "(f u A = (Inr v, u') \<and> list_all2 defaultEqualityCheck A A' \<longrightarrow>
      calls (defaultMemoize (counted f) defaultEqualityCheck) (memo_init, (0, u)) [A, A'] =
        ([Inr v, Inr v], (\<lparr>lastArgs = Some A', lastResult = v\<rparr>, (1, u'))))
   \<and> (length A \<noteq> length B \<or> (\<exists>i < length A. \<not> defaultEqualityCheck (A ! i) (B ! i)) \<longrightarrow>
      invocations (snd (calls (defaultMemoize (counted f) defaultEqualityCheck)
        (memo_init, (0, u)) [A, B])) = 2)"
proof (intro conjI impI)
  assume h0: "f u A = (Inr v, u') \<and> list_all2 defaultEqualityCheck A A'"
  then have h: "f u A = (Inr v, u') \<and>
      areArgumentsShallowlyEqual defaultEqualityCheck (Some A) (Some A')"
    by (simp add: shallow_list_all2)
  have c: "counted f (0, u) A = (Inr v, (Suc 0, u'))"
    using h by (simp add: counted_eq)
  have one: "defaultMemoize (counted f) defaultEqualityCheck (memo_init, (0, u)) A =
      (Inr v, (\<lparr>lastArgs = Some A, lastResult = v\<rparr>, (Suc 0, u')))"
    using c by (simp add: defaultMemoize_miss_value memo_init_def)
  have two: "defaultMemoize (counted f) defaultEqualityCheck
      (\<lparr>lastArgs = Some A, lastResult = v\<rparr>, (Suc 0, u')) A' =
      (Inr v, (\<lparr>lastArgs = Some A', lastResult = v\<rparr>, (Suc 0, u')))"
    using h by (simp add: defaultMemoize_hit)
  show "calls (defaultMemoize (counted f) defaultEqualityCheck) (memo_init, (0, u)) [A, A'] =
        ([Inr v, Inr v], (\<lparr>lastArgs = Some A', lastResult = v\<rparr>, (1, u')))"
    using calls_two [OF one two] by simp
next
  assume "length A \<noteq> length B \<or> (\<exists>i < length A. \<not> defaultEqualityCheck (A ! i) (B ! i))"
  then have differ: "\<not> areArgumentsShallowlyEqual defaultEqualityCheck (Some A) (Some B)"
    by (auto simp: shallow_Some_iff)
  obtain r1 u1 where f1: "f u A = (r1, u1)" by (cases "f u A")
  obtain r2 u2 where f2: "f u1 B = (r2, u2)" by (cases "f u1 B")
  have c1: "counted f (0, u) A = (r1, (Suc 0, u1))" using f1 by (rule counted_eq)
  have c2: "counted f (Suc 0, u1) B = (r2, (Suc (Suc 0), u2))" using f2 by (rule counted_eq)
  show "invocations (snd (calls (defaultMemoize (counted f) defaultEqualityCheck)
        (memo_init, (0, u)) [A, B])) = 2"
  proof (cases r1)
    case (Inl e)
    then show ?thesis
      using c1 c2 by (cases r2) (simp_all add: defaultMemoize_def memo_init_def invocations_def)
  next
    case (Inr x)
    then show ?thesis
      using c1 c2 differ
      by (cases r2) (simp_all add: defaultMemoize_def memo_init_def invocations_def)
  qed
qed


text \<open>A function that returns \<open>7\<close>, called with the same arguments twice, and with two
  lists that differ in the second position.\<close>

theorem defaultMemoize_twice_witness:
  "calls (defaultMemoize (counted (returning (JNumber 7))) defaultEqualityCheck)
       (memo_init, (0, ())) [[JNumber 1, JString ''a''], [JNumber 1, JString ''a'']] =
     ([Inr (JNumber 7), Inr (JNumber 7)],
      (\<lparr>lastArgs = Some [JNumber 1, JString ''a''], lastResult = JNumber 7\<rparr>, (1, ())))
   \<and> invocations (snd (calls (defaultMemoize (counted (returning (JNumber 7))) defaultEqualityCheck)
        (memo_init, (0, ())) [[JNumber 1, JString ''a''], [JNumber 1, JString ''b'']])) = 2"
proof -
  have v: "returning (JNumber 7) () [JNumber 1, JString ''a''] = (Inr (JNumber 7), ())"
    by (simp add: returning_def)
  have same: "list_all2 defaultEqualityCheck
      [JNumber 1, JString ''a''] [JNumber 1, JString ''a'']"
    by simp
  have differ: "length [JNumber 1, JString ''a''] \<noteq> length [JNumber 1, JString ''b''] \<or>
      (\<exists>i < length [JNumber 1, JString ''a''].
         \<not> defaultEqualityCheck ([JNumber 1, JString ''a''] ! i) ([JNumber 1, JString ''b''] ! i))"
    by (intro disjI2 exI [of _ 1]) simp
  have once: "calls (defaultMemoize (counted (returning (JNumber 7))) defaultEqualityCheck)
       (memo_init, (0, ())) [[JNumber 1, JString ''a''], [JNumber 1, JString ''a'']] =
     ([Inr (JNumber 7), Inr (JNumber 7)],
      (\<lparr>lastArgs = Some [JNumber 1, JString ''a''], lastResult = JNumber 7\<rparr>, (1, ())))"
    by (rule defaultMemoize_twice [where f = "returning (JNumber 7)",
          THEN conjunct1, rule_format, OF conjI, OF v same])
  have twice: "invocations (snd (calls (defaultMemoize (counted (returning (JNumber 7)))
        defaultEqualityCheck)
        (memo_init, (0, ())) [[JNumber 1, JString ''a''], [JNumber 1, JString ''b'']])) = 2"
    by (rule defaultMemoize_twice [where f = "returning (JNumber 7)",
          THEN conjunct2, rule_format, OF differ])
  from once twice show ?thesis by (rule conjI)
qed


text \<open>
  Claim C2 as it is worded covers every function. A function that raises is invoked at
  both of two calls with the same arguments, not once.
\<close>

theorem defaultMemoize_twice_counterexample:
  "list_all2 defaultEqualityCheck [JNumber 1] [JNumber 1]
   \<and> calls (defaultMemoize (counted (raising (Thrown (JString ''boom'')))) defaultEqualityCheck)
       (memo_init, (0, ())) [[JNumber 1], [JNumber 1]] =
     ([Inl (Thrown (JString ''boom'')), Inl (Thrown (JString ''boom''))], (memo_init, (2, ())))"
  by (simp add: shallow_list_all2 defaultMemoize_def counted_def raising_def memo_init_def)


section \<open>Properties of the dependency extractor\<close>

lemma pop_snoc: "pop (pre @ [rf]) = (rf, pre)"
  by (simp add: pop_def)

lemma function_refs_map: "function_refs (map JFunction rs) = rs"
  by (induction rs) simp_all

lemma function_refs_length:
  "list_all (\<lambda>dep. typeof dep = ''function'') deps \<Longrightarrow> map JFunction (function_refs deps) = deps"
proof (induction deps)
  case Nil
  then show ?case by simp
next
  case (Cons d deps)
  then show ?case by (cases d) simp_all
qed

text \<open>
  Claim C5. When the dependency list (the elements of the array that comes first, or else
  all the arguments before the result function) has an entry that is not a function, the
  extractor raises, and so does the selector creator, whatever its memoizer, before any
  selector is returned; the message lists the \<^verbatim>\<open>typeof\<close> of every dependency, of the
  functions too, in their order, separated by a comma and a space.
\<close>

theorem getDependencies_rejects:
  assumes "\<not> list_all (\<lambda>dep. typeof dep = ''function'') (dependency_list funcs)"
  shows "getDependencies funcs =
      Inl (Error (''Selector creators expect all input-selectors to be functions, '' @
                  ''instead received the following types: ['' @
                  join '', '' (map typeof (dependency_list funcs)) @ '']''))
    \<and> composeSelector memoize funcs rf =
      Inl (Error (''Selector creators expect all input-selectors to be functions, '' @
                  ''instead received the following types: ['' @
                  join '', '' (map typeof (dependency_list funcs)) @ '']''))
    \<and> createSelectorCreator memoize' body (funcs @ [r]) =
      Inl (Error (''Selector creators expect all input-selectors to be functions, '' @
                  ''instead received the following types: ['' @
                  join '', '' (map typeof (dependency_list funcs)) @ '']''))"
  using assms
  by (simp add: getDependencies_def composeSelector_def createSelectorCreator_def pop_snoc)

text \<open>\<^verbatim>\<open>createSelector(f0, 'a', 3, f2)\<close> and \<^verbatim>\<open>createSelector([undefined, f0], f2)\<close>.\<close>

theorem getDependencies_rejects_witness:
  "createSelector example_body [JFunction 0, JString ''a'', JNumber 3, JFunction 2] =
   Inl (Error (''Selector creators expect all input-selectors to be functions, '' @
               ''instead received the following types: [function, string, number]''))
   \<and> createSelector example_body [JArray 7 [JUndefined, JFunction 0], JFunction 2] =
   Inl (Error (''Selector creators expect all input-selectors to be functions, '' @
               ''instead received the following types: [undefined, function]''))"
proof -
  have a: "\<not> list_all (\<lambda>dep. typeof dep = ''function'')
      (dependency_list [JFunction 0, JString ''a'', JNumber 3])"
    by (simp add: dependency_list_def)
  have b: "\<not> list_all (\<lambda>dep. typeof dep = ''function'')
      (dependency_list [JArray 7 [JUndefined, JFunction 0]])"
    by (simp add: dependency_list_def)
  have one: "createSelectorCreator (memoize_with defaultEqualityCheck) example_body
     ([JFunction 0, JString ''a'', JNumber 3] @ [JFunction 2]) =
   Inl (Error (''Selector creators expect all input-selectors to be functions, '' @
               ''instead received the following types: ['' @
               join '', '' (map typeof (dependency_list [JFunction 0, JString ''a'', JNumber 3])) @
               '']''))"
    by (rule getDependencies_rejects [OF a, THEN conjunct2, THEN conjunct2])
  have two: "createSelectorCreator (memoize_with defaultEqualityCheck) example_body
     ([JArray 7 [JUndefined, JFunction 0]] @ [JFunction 2]) =
   Inl (Error (''Selector creators expect all input-selectors to be functions, '' @
               ''instead received the following types: ['' @
               join '', '' (map typeof (dependency_list [JArray 7 [JUndefined, JFunction 0]])) @
               '']''))"
    by (rule getDependencies_rejects [OF b, THEN conjunct2, THEN conjunct2])
  from one two show ?thesis by (simp add: dependency_list_def createSelector_def)
qed

section \<open>Properties of the selector composer\<close>

lemma selector_outer_hit:
  "areArgumentsShallowlyEqual defaultEqualityCheck (lastArgs mo) (Some a) \<Longrightarrow>
   selector_call body sel (mo, w) a = (Inr (lastResult mo), (mo\<lparr>lastArgs := Some a\<rparr>, w))"
  by (simp add: selector_call_def defaultMemoize_hit)


lemma selector_inner_hit:
  "memoizedResultFunc sel = defaultMemoized (counted (resultFunc sel)) eq \<Longrightarrow>
   \<not> areArgumentsShallowlyEqual defaultEqualityCheck (lastArgs mo) (Some a) \<Longrightarrow>
   params_loop body (dependencies sel) a [] = Inr p \<Longrightarrow>
   areArgumentsShallowlyEqual eq (lastArgs mi) (Some p) \<Longrightarrow>
   selector_call body sel (mo, (mi, w)) a =
     (Inr (lastResult mi),
      (\<lparr>lastArgs = Some a, lastResult = lastResult mi\<rparr>, (mi\<lparr>lastArgs := Some p\<rparr>, w)))"
  by (simp add: selector_call_def defaultMemoize_miss_value selector_func_def
      defaultMemoized_def defaultMemoize_hit)

lemma selector_recompute_value:
  "memoizedResultFunc sel = defaultMemoized (counted (resultFunc sel)) eq \<Longrightarrow>
   \<not> areArgumentsShallowlyEqual defaultEqualityCheck (lastArgs mo) (Some a) \<Longrightarrow>
   params_loop body (dependencies sel) a [] = Inr p \<Longrightarrow>
   \<not> areArgumentsShallowlyEqual eq (lastArgs mi) (Some p) \<Longrightarrow>
   resultFunc sel u p = (Inr v, u') \<Longrightarrow>
   selector_call body sel (mo, (mi, (n, u))) a =
     (Inr v,
      (\<lparr>lastArgs = Some a, lastResult = v\<rparr>, (\<lparr>lastArgs = Some p, lastResult = v\<rparr>, (Suc n, u'))))"
  by (simp add: selector_call_def defaultMemoize_miss_value selector_func_def
      defaultMemoized_def counted_eq)

lemma selector_recompute_raise:
  "memoizedResultFunc sel = defaultMemoized (counted (resultFunc sel)) eq \<Longrightarrow>
   \<not> areArgumentsShallowlyEqual defaultEqualityCheck (lastArgs mo) (Some a) \<Longrightarrow>
   params_loop body (dependencies sel) a [] = Inr p \<Longrightarrow>
   \<not> areArgumentsShallowlyEqual eq (lastArgs mi) (Some p) \<Longrightarrow>
   resultFunc sel u p = (Inl e, u') \<Longrightarrow>
   selector_call body sel (mo, (mi, (n, u))) a = (Inl e, (mo, (mi, (Suc n, u'))))"
  by (simp add: selector_call_def defaultMemoize_miss_raise selector_func_def
      defaultMemoized_def counted_eq)

lemma selector_unmemoized:
  "memoizedResultFunc sel = unmemoized (counted (resultFunc sel)) \<Longrightarrow>
   \<not> areArgumentsShallowlyEqual defaultEqualityCheck (lastArgs mo) (Some a) \<Longrightarrow>
   params_loop body (dependencies sel) a [] = Inr p \<Longrightarrow>
   resultFunc sel u p = (Inr v, u') \<Longrightarrow>
   selector_call body sel (mo, (x, (n, u))) a =
     (Inr v, (\<lparr>lastArgs = Some a, lastResult = v\<rparr>, (x, (Suc n, u'))))"
  by (simp add: selector_call_def defaultMemoize_miss_value selector_func_def
      unmemoized_def counted_eq)

lemma composeSelector_fields:
  "composeSelector (memoize_with eq) funcs rf = Inr sel \<Longrightarrow>
   dependencies sel = function_refs (dependency_list funcs) \<and> resultFunc sel = rf \<and>
   memoizedResultFunc sel = defaultMemoized (counted rf) eq"
  by (auto simp: composeSelector_def getDependencies_def memoize_with_def Let_def
      split: if_splits)

lemma selector_init_default:
  "memoizedResultFunc sel = defaultMemoized f eq \<Longrightarrow>
   selector_init sel u = (memo_init, memo_init, 0, u)"
  by (simp add: selector_init_def defaultMemoized_def)

lemma first_call:
  "memoizedResultFunc sel = defaultMemoized (counted (resultFunc sel)) eq \<Longrightarrow>
   params_loop body (dependencies sel) a1 [] = Inr p1 \<Longrightarrow> resultFunc sel u p1 = (Inr v, u') \<Longrightarrow>
   selector_call body sel (selector_init sel u) a1 =
     (Inr v, (\<lparr>lastArgs = Some a1, lastResult = v\<rparr>, (\<lparr>lastArgs = Some p1, lastResult = v\<rparr>, (Suc 0, u'))))"
  by (simp add: selector_init_default selector_recompute_value memo_init_def)

lemma calls_snd: "snd (calls g s (a # rest)) = snd (calls g (snd (g s a)) rest)"
  by (simp split: prod.splits)

lemma same_arguments_chain:
  "lastArgs mo = Some a0 \<Longrightarrow> lastResult mo = v \<Longrightarrow>
   successively (\<lambda>a a'. areArgumentsShallowlyEqual defaultEqualityCheck (Some a) (Some a')) (a0 # as) \<Longrightarrow>
   fst (calls (selector_call body sel) (mo, (mi, (n, u))) as) = replicate (length as) (Inr v)
   \<and> recomputations (snd (calls (selector_call body sel) (mo, (mi, (n, u))) as)) = n"
proof (induction as arbitrary: mo a0)
  case Nil
  then show ?case by (simp add: recomputations_def)
next
  case (Cons a as)
  from Cons.prems have hit: "areArgumentsShallowlyEqual defaultEqualityCheck (lastArgs mo) (Some a)"
    and rest: "successively (\<lambda>a a'. areArgumentsShallowlyEqual defaultEqualityCheck (Some a) (Some a')) (a # as)"
    by simp_all
  have step: "selector_call body sel (mo, (mi, (n, u))) a =
      (Inr v, (mo\<lparr>lastArgs := Some a\<rparr>, (mi, (n, u))))"
    using selector_outer_hit [OF hit] Cons.prems(2) by simp
  have ih: "fst (calls (selector_call body sel) (mo\<lparr>lastArgs := Some a\<rparr>, (mi, (n, u))) as)
        = replicate (length as) (Inr v)
      \<and> recomputations (snd (calls (selector_call body sel) (mo\<lparr>lastArgs := Some a\<rparr>, (mi, (n, u))) as)) = n"
    using Cons.IH [of "mo\<lparr>lastArgs := Some a\<rparr>" a] Cons.prems(2) rest by simp
  show ?case
    using ih by (simp del: calls.simps add: calls_Cons [where g = "selector_call body sel", OF step])
qed

lemma same_outputs_chain:
  assumes default: "memoizedResultFunc sel = defaultMemoized (counted (resultFunc sel)) eq"
  shows "lastArgs mo = Some a0 \<Longrightarrow> lastArgs mi = Some p0 \<Longrightarrow> lastResult mi = v \<Longrightarrow>
   params_loop body (dependencies sel) a0 [] = Inr p0 \<Longrightarrow>
   successively (\<lambda>a a'. \<not> areArgumentsShallowlyEqual defaultEqualityCheck (Some a) (Some a') \<and>
      (\<exists>p p'. params_loop body (dependencies sel) a [] = Inr p \<and>
               params_loop body (dependencies sel) a' [] = Inr p' \<and>
               areArgumentsShallowlyEqual eq (Some p) (Some p'))) (a0 # as) \<Longrightarrow>
   fst (calls (selector_call body sel) (mo, (mi, (n, u))) as) = replicate (length as) (Inr v)
   \<and> recomputations (snd (calls (selector_call body sel) (mo, (mi, (n, u))) as)) = n"
proof (induction as arbitrary: mo mi a0 p0)
  case Nil
  then show ?case by (simp add: recomputations_def)
next
  case (Cons a as)
  let ?R = "\<lambda>a a'. \<not> areArgumentsShallowlyEqual defaultEqualityCheck (Some a) (Some a') \<and>
      (\<exists>p p'. params_loop body (dependencies sel) a [] = Inr p \<and>
               params_loop body (dependencies sel) a' [] = Inr p' \<and>
               areArgumentsShallowlyEqual eq (Some p) (Some p'))"
  from Cons.prems(5) have here: "?R a0 a" and rest: "successively ?R (a # as)"
    by simp_all
  from here Cons.prems(4) obtain p where
    p: "params_loop body (dependencies sel) a [] = Inr p"
    and same: "areArgumentsShallowlyEqual eq (Some p0) (Some p)"
    by auto
  have miss: "\<not> areArgumentsShallowlyEqual defaultEqualityCheck (lastArgs mo) (Some a)"
    using here Cons.prems(1) by simp
  have hit: "areArgumentsShallowlyEqual eq (lastArgs mi) (Some p)"
    using same Cons.prems(2) by simp
  have step: "selector_call body sel (mo, (mi, (n, u))) a =
      (Inr v, (\<lparr>lastArgs = Some a, lastResult = v\<rparr>, (mi\<lparr>lastArgs := Some p\<rparr>, (n, u))))"
    using selector_inner_hit [OF default miss p hit] Cons.prems(3) by simp
  have ih: "fst (calls (selector_call body sel)
          (\<lparr>lastArgs = Some a, lastResult = v\<rparr>, (mi\<lparr>lastArgs := Some p\<rparr>, (n, u))) as)
        = replicate (length as) (Inr v)
      \<and> recomputations (snd (calls (selector_call body sel)
          (\<lparr>lastArgs = Some a, lastResult = v\<rparr>, (mi\<lparr>lastArgs := Some p\<rparr>, (n, u))) as)) = n"
    using Cons.IH [of "\<lparr>lastArgs = Some a, lastResult = v\<rparr>" a "mi\<lparr>lastArgs := Some p\<rparr>" p]
      Cons.prems(3) p rest by simp
  show ?case
    using ih by (simp del: calls.simps add: calls_Cons [where g = "selector_call body sel", OF step])
qed

lemma count_changes:
  assumes default: "memoizedResultFunc sel = defaultMemoized (counted (resultFunc sel)) eq"
    and returns: "\<And>w p. \<exists>v w'. resultFunc sel w p = (Inr v, w')"
  shows "lastArgs mo = Some a0 \<Longrightarrow> lastArgs mi = Some p0 \<Longrightarrow>
   successively (\<lambda>a a'. \<not> list_all2 defaultEqualityCheck a a') (a0 # as) \<Longrightarrow>
   map (\<lambda>a. params_loop body (dependencies sel) a []) as = map Inr ps \<Longrightarrow>
   recomputations (snd (calls (selector_call body sel) (mo, (mi, (n, u))) as))
     = n + changes eq p0 ps"
proof (induction as arbitrary: mo mi n u a0 p0 ps)
  case Nil
  then show ?case by (simp add: recomputations_def)
next
  case (Cons a as)
  from Cons.prems(4) obtain p ps' where ps: "ps = p # ps'"
    and p: "params_loop body (dependencies sel) a [] = Inr p"
    and rest_ps: "map (\<lambda>a. params_loop body (dependencies sel) a []) as = map Inr ps'"
    by (cases ps) auto
  from Cons.prems(3) have differ: "\<not> list_all2 defaultEqualityCheck a0 a"
    and rest: "successively (\<lambda>a a'. \<not> list_all2 defaultEqualityCheck a a') (a # as)"
    by simp_all
  have miss: "\<not> areArgumentsShallowlyEqual defaultEqualityCheck (lastArgs mo) (Some a)"
    using differ Cons.prems(1) by (simp add: shallow_list_all2)
  show ?case
  proof (cases "list_all2 eq p0 p")
    case True
    then have hit: "areArgumentsShallowlyEqual eq (lastArgs mi) (Some p)"
      using Cons.prems(2) by (simp add: shallow_list_all2)
    have step: "snd (selector_call body sel (mo, (mi, (n, u))) a) =
        (\<lparr>lastArgs = Some a, lastResult = lastResult mi\<rparr>, (mi\<lparr>lastArgs := Some p\<rparr>, (n, u)))"
      using selector_inner_hit [OF default miss p hit] by simp
    have "recomputations (snd (calls (selector_call body sel)
          (\<lparr>lastArgs = Some a, lastResult = lastResult mi\<rparr>, (mi\<lparr>lastArgs := Some p\<rparr>, (n, u))) as))
        = n + changes eq p ps'"
      using rest rest_ps by (intro Cons.IH [where ?a0.0 = a]) simp_all
    then show ?thesis
      using True by (simp only: calls_snd step ps changes.simps if_True add_0)
  next
    case False
    then have inner_miss: "\<not> areArgumentsShallowlyEqual eq (lastArgs mi) (Some p)"
      using Cons.prems(2) by (simp add: shallow_list_all2)
    from returns obtain v u' where v: "resultFunc sel u p = (Inr v, u')"
      by blast
    have step: "snd (selector_call body sel (mo, (mi, (n, u))) a) =
        (\<lparr>lastArgs = Some a, lastResult = v\<rparr>, (\<lparr>lastArgs = Some p, lastResult = v\<rparr>, (Suc n, u')))"
      using selector_recompute_value [OF default miss p inner_miss v] by simp
    have "recomputations (snd (calls (selector_call body sel)
          (\<lparr>lastArgs = Some a, lastResult = v\<rparr>, (\<lparr>lastArgs = Some p, lastResult = v\<rparr>, (Suc n, u'))) as))
        = Suc n + changes eq p ps'"
      using rest rest_ps by (intro Cons.IH [where ?a0.0 = a]) simp_all
    then show ?thesis
      using False by (simp add: calls_snd step ps del: calls.simps)
  qed
qed

text \<open>
  Claim C1, as the code has it. Take a selector built by the composer with
  \<^verbatim>\<open>defaultMemoize\<close> as its memoizer, under any comparator, and calls \<open>a1, \<dots>\<close> of it from
  its creation on, such that the dependencies return their outputs \<open>p1\<close> on \<open>a1\<close> and the
  result function returns a value on \<open>p1\<close>. If every argument list is \<^verbatim>\<open>===\<close>, element by
  element, to the one before it, then every call returns that value and \<open>recomputations\<close>
  is \<open>1\<close> after the last call. If every argument list differs by reference from the one
  before it, while the dependencies return on it outputs that the inner comparator finds
  equal to the outputs on the one before it, then again every call returns that value and
  \<open>recomputations\<close> is \<open>1\<close>. And if every argument list differs by reference from the one
  before it, the dependencies return on all of them and the result function always
  returns, then \<open>recomputations\<close> is the number of distinct parameter lists: one for the
  first, and one for every list that the inner comparator does not find equal to the one
  before it.
\<close>

theorem recomputations_once:
  assumes built: "composeSelector (memoize_with eq) funcs rf = Inr sel"
    and deps1: "params_loop body (dependencies sel) a1 [] = Inr p1"
    and rf1: "rf u p1 = (Inr v, u')"
  shows
    "(successively (\<lambda>a a'. list_all2 defaultEqualityCheck a a') (a1 # as) \<longrightarrow>
      fst (calls (selector_call body sel) (selector_init sel u) (a1 # as))
        = replicate (Suc (length as)) (Inr v)
      \<and> recomputations (snd (calls (selector_call body sel) (selector_init sel u) (a1 # as))) = 1)
     \<and> (successively (\<lambda>a a'.
          \<not> list_all2 defaultEqualityCheck a a' \<and>
          (\<exists>p p'. params_loop body (dependencies sel) a [] = Inr p \<and>
                   params_loop body (dependencies sel) a' [] = Inr p' \<and>
                   list_all2 eq p p')) (a1 # as) \<longrightarrow>
      fst (calls (selector_call body sel) (selector_init sel u) (a1 # as))
        = replicate (Suc (length as)) (Inr v)
      \<and> recomputations (snd (calls (selector_call body sel) (selector_init sel u) (a1 # as))) = 1)
     \<and> (successively (\<lambda>a a'. \<not> list_all2 defaultEqualityCheck a a') (a1 # as) \<and>
        map (\<lambda>a. params_loop body (dependencies sel) a []) as = map Inr ps \<and>
        (\<forall>w p. \<exists>v' w'. rf w p = (Inr v', w')) \<longrightarrow>
      recomputations (snd (calls (selector_call body sel) (selector_init sel u) (a1 # as)))
        = distinct_lists eq (p1 # ps))"
proof -
  have fields: "resultFunc sel = rf"
    and default: "memoizedResultFunc sel = defaultMemoized (counted (resultFunc sel)) eq"
    using composeSelector_fields [OF built] by simp_all
  have step: "selector_call body sel (selector_init sel u) a1 =
     (Inr v, (\<lparr>lastArgs = Some a1, lastResult = v\<rparr>, (\<lparr>lastArgs = Some p1, lastResult = v\<rparr>, (Suc 0, u'))))"
    using first_call [OF default deps1] rf1 fields by simp
  show ?thesis
  proof (intro conjI impI)
    assume "successively (\<lambda>a a'. list_all2 defaultEqualityCheck a a') (a1 # as)"
    then have chain: "successively
        (\<lambda>a a'. areArgumentsShallowlyEqual defaultEqualityCheck (Some a) (Some a')) (a1 # as)"
      by (simp only: shallow_list_all2)
    have rest: "fst (calls (selector_call body sel)
          (\<lparr>lastArgs = Some a1, lastResult = v\<rparr>, (\<lparr>lastArgs = Some p1, lastResult = v\<rparr>, (Suc 0, u'))) as)
          = replicate (length as) (Inr v)
        \<and> recomputations (snd (calls (selector_call body sel)
          (\<lparr>lastArgs = Some a1, lastResult = v\<rparr>, (\<lparr>lastArgs = Some p1, lastResult = v\<rparr>, (Suc 0, u'))) as)) = Suc 0"
      by (rule same_arguments_chain [OF _ _ chain]) simp_all
    show "fst (calls (selector_call body sel) (selector_init sel u) (a1 # as))
        = replicate (Suc (length as)) (Inr v)"
      using rest by (simp del: calls.simps add: calls_Cons [where g = "selector_call body sel", OF step])
    show "recomputations (snd (calls (selector_call body sel) (selector_init sel u) (a1 # as))) = 1"
      using rest by (simp del: calls.simps add: calls_Cons [where g = "selector_call body sel", OF step])
  next
    assume "successively (\<lambda>a a'.
          \<not> list_all2 defaultEqualityCheck a a' \<and>
          (\<exists>p p'. params_loop body (dependencies sel) a [] = Inr p \<and>
                   params_loop body (dependencies sel) a' [] = Inr p' \<and>
                   list_all2 eq p p')) (a1 # as)"
    then have chain: "successively (\<lambda>a a'.
          \<not> areArgumentsShallowlyEqual defaultEqualityCheck (Some a) (Some a') \<and>
          (\<exists>p p'. params_loop body (dependencies sel) a [] = Inr p \<and>
                   params_loop body (dependencies sel) a' [] = Inr p' \<and>
                   areArgumentsShallowlyEqual eq (Some p) (Some p'))) (a1 # as)"
      by (simp only: shallow_list_all2)
    have rest: "fst (calls (selector_call body sel)
          (\<lparr>lastArgs = Some a1, lastResult = v\<rparr>, (\<lparr>lastArgs = Some p1, lastResult = v\<rparr>, (Suc 0, u'))) as)
          = replicate (length as) (Inr v)
        \<and> recomputations (snd (calls (selector_call body sel)
          (\<lparr>lastArgs = Some a1, lastResult = v\<rparr>, (\<lparr>lastArgs = Some p1, lastResult = v\<rparr>, (Suc 0, u'))) as)) = Suc 0"
      by (rule same_outputs_chain [OF default _ _ _ deps1]) (use chain in simp_all)
    show "fst (calls (selector_call body sel) (selector_init sel u) (a1 # as))
        = replicate (Suc (length as)) (Inr v)"
      using rest by (simp del: calls.simps add: calls_Cons [where g = "selector_call body sel", OF step])
    show "recomputations (snd (calls (selector_call body sel) (selector_init sel u) (a1 # as))) = 1"
      using rest by (simp del: calls.simps add: calls_Cons [where g = "selector_call body sel", OF step])
  next
    assume h: "successively (\<lambda>a a'. \<not> list_all2 defaultEqualityCheck a a') (a1 # as) \<and>
        map (\<lambda>a. params_loop body (dependencies sel) a []) as = map Inr ps \<and>
        (\<forall>w p. \<exists>v' w'. rf w p = (Inr v', w'))"
    then have returns: "\<And>w p. \<exists>v' w'. resultFunc sel w p = (Inr v', w')"
      using fields by simp
    have "recomputations (snd (calls (selector_call body sel)
          (\<lparr>lastArgs = Some a1, lastResult = v\<rparr>, (\<lparr>lastArgs = Some p1, lastResult = v\<rparr>, (Suc 0, u'))) as))
        = Suc 0 + changes eq p1 ps"
      using h by (intro count_changes [OF default returns, where ?a0.0 = a1]) simp_all
    then show "recomputations (snd (calls (selector_call body sel) (selector_init sel u) (a1 # as)))
        = distinct_lists eq (p1 # ps)"
      by (simp add: calls_snd step del: calls.simps)
  qed
qed

lemma apply_fn_function: "apply_fn body (JFunction r) u p = (body r p, u)"
  by (simp add: apply_fn_def)



text \<open>Three calls with the number \<open>1\<close>; two calls with two different objects whose property
  \<^verbatim>\<open>a\<close> is \<open>5\<close>; and five calls with five different objects whose property \<^verbatim>\<open>a\<close> is \<open>5\<close>,
  \<open>5\<close>, \<open>6\<close>, \<open>6\<close> and \<open>5\<close>: three distinct parameter lists.\<close>

theorem recomputations_once_witness:
  "recomputations (snd (calls (selector_call example_body counting_selector)
      (selector_init counting_selector 0)
      [[JNumber 1], [JNumber 1], [JNumber 1]])) = 1
   \<and> recomputations (snd (calls (selector_call example_body counting_selector)
      (selector_init counting_selector 0)
      [[JObject 1 [(''a'', JNumber 5)]], [JObject 2 [(''a'', JNumber 5)]]])) = 1
   \<and> recomputations (snd (calls (selector_call example_body counting_selector)
      (selector_init counting_selector 0)
      [[JObject 1 [(''a'', JNumber 5)]], [JObject 2 [(''a'', JNumber 5)]],
       [JObject 3 [(''a'', JNumber 6)]], [JObject 4 [(''a'', JNumber 6)]],
       [JObject 5 [(''a'', JNumber 5)]]])) = 3"
proof -
  have built: "composeSelector (memoize_with defaultEqualityCheck) [JFunction 3]
      (apply_fn example_body (JFunction 2)) = Inr counting_selector"
    by (simp add: composeSelector_def getDependencies_def dependency_list_def
        counting_selector_def memoize_with_def)
  have rf: "apply_fn example_body (JFunction 2) w p = (Inr (JNumber (int (length p))), w)" for w p
    by (simp add: apply_fn_function example_body_def)
  have total: "\<forall>w p. \<exists>v' w'. apply_fn example_body (JFunction 2) w p = (Inr v', w')"
    by (simp add: rf)
  have d1: "params_loop example_body (dependencies counting_selector) [JNumber 1] [] = Inr [JUndefined]"
    by (simp add: counting_selector_def example_body_def)
  have d2: "params_loop example_body (dependencies counting_selector)
      [JObject r [(''a'', JNumber k)]] [] = Inr [JNumber k]" for r k
    by (simp add: counting_selector_def example_body_def)
  have one: "recomputations (snd (calls (selector_call example_body counting_selector)
      (selector_init counting_selector 0) [[JNumber 1], [JNumber 1], [JNumber 1]])) = 1"
    using recomputations_once [OF built d1 rf [of 0 "[JUndefined]"],
        where as = "[[JNumber 1], [JNumber 1]]"]
    by (simp del: calls.simps)
  have two: "recomputations (snd (calls (selector_call example_body counting_selector)
      (selector_init counting_selector 0)
      [[JObject 1 [(''a'', JNumber 5)]], [JObject 2 [(''a'', JNumber 5)]]])) = 1"
    using recomputations_once [OF built d2 [of 1 5] rf [of 0 "[JNumber 5]"],
        where as = "[[JObject 2 [(''a'', JNumber 5)]]]"]
    by (simp add: d2 del: calls.simps)
  have three: "recomputations (snd (calls (selector_call example_body counting_selector)
      (selector_init counting_selector 0)
      [[JObject 1 [(''a'', JNumber 5)]], [JObject 2 [(''a'', JNumber 5)]],
       [JObject 3 [(''a'', JNumber 6)]], [JObject 4 [(''a'', JNumber 6)]],
       [JObject 5 [(''a'', JNumber 5)]]])) = 3"
    using recomputations_once [OF built d2 [of 1 5] rf [of 0 "[JNumber 5]"],
        where as = "[[JObject 2 [(''a'', JNumber 5)]],
       [JObject 3 [(''a'', JNumber 6)]], [JObject 4 [(''a'', JNumber 6)]],
       [JObject 5 [(''a'', JNumber 5)]]]"
        and ps = "[[JNumber 5], [JNumber 6], [JNumber 6], [JNumber 5]]"] total
    by (simp add: d2 del: calls.simps)
  from one two three show ?thesis by simp
qed

text \<open>
  Claim C1 as it is worded covers every selector. With a result function that raises, two
  calls with the same arguments leave \<open>recomputations\<close> at \<open>2\<close>. And with the memoizer
  \<^verbatim>\<open>func => func\<close> in the place of \<^verbatim>\<open>defaultMemoize\<close>, two calls with two different objects
  on which the dependency returns the same output leave it at \<open>2\<close> as well.
\<close>

theorem recomputations_once_counterexample:
  "createSelector example_body [JFunction 0, JFunction 1] = Inr raising_selector
   \<and> list_all2 defaultEqualityCheck [JNumber 1] [JNumber 1]
   \<and> calls (selector_call example_body raising_selector) (selector_init raising_selector 0)
       [[JNumber 1], [JNumber 1]] =
     ([Inl (Thrown (JString ''boom'')), Inl (Thrown (JString ''boom''))],
      (memo_init, memo_init, 2, 0))
   \<and> recomputations (memo_init, memo_init, 2, 0 :: nat) = 2
   \<and> createSelectorCreator memoize_identity example_body [JFunction 3, JFunction 2]
       = Inr unmemoized_selector
   \<and> \<not> list_all2 defaultEqualityCheck
         [JObject 1 [(''a'', JNumber 5)]] [JObject 2 [(''a'', JNumber 5)]]
   \<and> params_loop example_body (dependencies unmemoized_selector)
         [JObject 1 [(''a'', JNumber 5)]] [] = Inr [JNumber 5]
   \<and> params_loop example_body (dependencies unmemoized_selector)
         [JObject 2 [(''a'', JNumber 5)]] [] = Inr [JNumber 5]
   \<and> list_all2 defaultEqualityCheck [JNumber 5] [JNumber 5]
   \<and> calls (selector_call example_body unmemoized_selector) (selector_init unmemoized_selector 0)
       [[JObject 1 [(''a'', JNumber 5)]], [JObject 2 [(''a'', JNumber 5)]]] =
     ([Inr (JNumber 1), Inr (JNumber 1)],
      (\<lparr>lastArgs = Some [JObject 2 [(''a'', JNumber 5)]], lastResult = JNumber 1\<rparr>, (), 2, 0))
   \<and> recomputations
        (\<lparr>lastArgs = Some [JObject 2 [(''a'', JNumber 5)]], lastResult = JNumber 1\<rparr>, (), 2, 0 :: nat)
      = 2"
proof -
  have built: "createSelector example_body [JFunction 0, JFunction 1] = Inr raising_selector"
    by (simp add: createSelector_def createSelectorCreator_def pop_def composeSelector_def
        getDependencies_def dependency_list_def raising_selector_def memoize_with_def)
  have default: "memoizedResultFunc raising_selector =
      defaultMemoized (counted (resultFunc raising_selector)) defaultEqualityCheck"
    by (simp add: raising_selector_def)
  have d: "params_loop example_body (dependencies raising_selector) [JNumber 1] [] = Inr [JNumber 1]"
    by (simp add: raising_selector_def example_body_def)
  have r: "resultFunc raising_selector w [JNumber 1] = (Inl (Thrown (JString ''boom'')), w)" for w
    by (simp add: raising_selector_def apply_fn_function example_body_def)
  have step: "selector_call example_body raising_selector (memo_init, memo_init, n, 0) [JNumber 1] =
      (Inl (Thrown (JString ''boom'')), (memo_init, memo_init, Suc n, 0))" for n
    by (rule selector_recompute_raise [OF default _ d _ r]) (simp_all add: memo_init_def)
  have raised: "calls (selector_call example_body raising_selector)
       (selector_init raising_selector 0) [[JNumber 1], [JNumber 1]] =
     ([Inl (Thrown (JString ''boom'')), Inl (Thrown (JString ''boom''))],
      (memo_init, memo_init, 2, 0))"
    using calls_two [where g = "selector_call example_body raising_selector",
        OF step [of 0] step [of "Suc 0"]]
    by (simp add: selector_init_default [OF default] numeral_2_eq_2 del: calls.simps)
  have built': "createSelectorCreator memoize_identity example_body [JFunction 3, JFunction 2]
       = Inr unmemoized_selector"
    by (simp add: createSelectorCreator_def pop_def composeSelector_def
        getDependencies_def dependency_list_def unmemoized_selector_def memoize_identity_def)
  have un: "memoizedResultFunc unmemoized_selector =
      unmemoized (counted (resultFunc unmemoized_selector))"
    by (simp add: unmemoized_selector_def)
  have d': "params_loop example_body (dependencies unmemoized_selector)
      [JObject k [(''a'', JNumber 5)]] [] = Inr [JNumber 5]" for k
    by (simp add: unmemoized_selector_def example_body_def)
  have r': "resultFunc unmemoized_selector w [JNumber 5] = (Inr (JNumber 1), w)" for w
    by (simp add: unmemoized_selector_def apply_fn_function example_body_def)
  have init': "selector_init unmemoized_selector 0 = (memo_init, (), 0, 0)"
    by (simp add: selector_init_def unmemoized_selector_def unmemoized_def)
  have s1: "selector_call example_body unmemoized_selector (memo_init, (), 0, 0)
        [JObject 1 [(''a'', JNumber 5)]] =
      (Inr (JNumber 1),
       (\<lparr>lastArgs = Some [JObject 1 [(''a'', JNumber 5)]], lastResult = JNumber 1\<rparr>, (), Suc 0, 0))"
    by (rule selector_unmemoized [OF un _ d' r']) (simp add: memo_init_def)
  have s2: "selector_call example_body unmemoized_selector
        (\<lparr>lastArgs = Some [JObject 1 [(''a'', JNumber 5)]], lastResult = JNumber 1\<rparr>, (), Suc 0, 0)
        [JObject 2 [(''a'', JNumber 5)]] =
      (Inr (JNumber 1),
       (\<lparr>lastArgs = Some [JObject 2 [(''a'', JNumber 5)]], lastResult = JNumber 1\<rparr>, (),
        Suc (Suc 0), 0))"
    by (rule selector_unmemoized [OF un _ d' r']) (simp add: shallow_list_all2)
  have twice: "calls (selector_call example_body unmemoized_selector)
       (selector_init unmemoized_selector 0)
       [[JObject 1 [(''a'', JNumber 5)]], [JObject 2 [(''a'', JNumber 5)]]] =
     ([Inr (JNumber 1), Inr (JNumber 1)],
      (\<lparr>lastArgs = Some [JObject 2 [(''a'', JNumber 5)]], lastResult = JNumber 1\<rparr>, (), 2, 0))"
    using calls_two [where g = "selector_call example_body unmemoized_selector", OF s1 s2]
    by (simp add: init' numeral_2_eq_2 del: calls.simps)
  from built raised built' twice show ?thesis
    by (simp add: recomputations_def d' del: calls.simps)
qed






section \<open>Properties of the structured selector builder\<close>

text \<open>
  Claim C7, as the code has it. For every first argument whose \<^verbatim>\<open>typeof\<close> is not
  \<^verbatim>\<open>'object'\<close>, the builder raises an error whose message ends with that \<^verbatim>\<open>typeof\<close>,
  whatever the selector creator; the values whose \<^verbatim>\<open>typeof\<close> is \<^verbatim>\<open>'object'\<close> are the objects,
  the arrays and \<^verbatim>\<open>null\<close>.
\<close>

theorem createStructuredSelector_rejects:
  "(typeof selectors \<noteq> ''object'' \<longrightarrow>
      createStructuredSelector selectors selectorCreator =
        Inl (Error (''createStructuredSelector expects first argument to be an object '' @
                    ''where each property is a selector, instead received a '' @
                    typeof selectors)))
   \<and> (typeof selectors = ''object'' \<longleftrightarrow>
        selectors = JNull \<or> (\<exists>r ps. selectors = JObject r ps) \<or> (\<exists>r xs. selectors = JArray r xs))"
  by (cases selectors) (simp_all add: createStructuredSelector_def)


text \<open>A number and a function as the first argument.\<close>

theorem createStructuredSelector_rejects_witness:
  "createStructuredSelector (JNumber 5) (composeSelector (memoize_with defaultEqualityCheck)) =
     Inl (Error (''createStructuredSelector expects first argument to be an object '' @
                 ''where each property is a selector, instead received a number''))
   \<and> createStructuredSelector (JFunction 0) (composeSelector (memoize_with defaultEqualityCheck)) =
     Inl (Error (''createStructuredSelector expects first argument to be an object '' @
                 ''where each property is a selector, instead received a function''))"
  using createStructuredSelector_rejects
      [of "JNumber 5" "composeSelector (memoize_with defaultEqualityCheck)"]
    createStructuredSelector_rejects
      [of "JFunction 0" "composeSelector (memoize_with defaultEqualityCheck)"]
  by simp


text \<open>
  Claim C7 as it is worded covers every argument that is not an object. \<^verbatim>\<open>null\<close> is not
  an object and passes the \<^verbatim>\<open>typeof\<close> guard; the call raises the \<^verbatim>\<open>TypeError\<close> of
  \<^verbatim>\<open>Object.keys\<close>, not the error that names the type received.
\<close>

theorem createStructuredSelector_rejects_counterexample:
  "createStructuredSelector JNull (composeSelector (memoize_with defaultEqualityCheck))
     = Inl TypeError
   \<and> Inl TypeError \<noteq>
     (Inl (Error (''createStructuredSelector expects first argument to be an object '' @
                 ''where each property is a selector, instead received a '' @ typeof JNull))
      :: ((memo, nat) selector) result)"
  by (simp add: createStructuredSelector_def)



































end
